theory Spec2Isabelle
  imports Complex_Main "HOL-Library.AList"
begin

section \<open>Strings\<close>

text \<open>
  Python strings are sequences of code points. The model uses \<^typ>\<open>string\<close>, whose
  characters are the code points 0 to 255 (Latin-1). On that range \<^verbatim>\<open>str.lower\<close> maps
  A-Z and the accented capitals 192-222 (except the multiplication sign 215) to the
  character 32 places later and leaves every other character alone, and
  \<^verbatim>\<open>str.isspace\<close> holds for 9-13, 28-32, 133 and 160.
\<close>

definition lower_char :: "char \<Rightarrow> char" where
  "lower_char c =
     (let n = (of_char c :: nat)
      in if (65 \<le> n \<and> n \<le> 90) \<or> (192 \<le> n \<and> n \<le> 222 \<and> n \<noteq> 215)
         then char_of (n + 32) else c)"

definition lower :: "string \<Rightarrow> string" where
  "lower s = map lower_char s"

definition startswith :: "string \<Rightarrow> string \<Rightarrow> bool" where
  "startswith s sub = (take (length sub) s = sub)"

text \<open>\<^verbatim>\<open>sub in s\<close>: some position of \<open>s\<close> starts a copy of \<open>sub\<close>.\<close>

fun contains :: "string \<Rightarrow> string \<Rightarrow> bool" where
  "contains [] sub = (sub = [])"
| "contains (c # cs) sub = (startswith (c # cs) sub \<or> contains cs sub)"

definition isspace :: "char \<Rightarrow> bool" where
  "isspace c =
     (let n = (of_char c :: nat)
      in (9 \<le> n \<and> n \<le> 13) \<or> (28 \<le> n \<and> n \<le> 32) \<or> n = 133 \<or> n = 160)"

definition strip :: "string \<Rightarrow> string" where
  "strip s = rev (dropWhile isspace (rev (dropWhile isspace s)))"

text \<open>\<^verbatim>\<open>" ".join(xs)\<close>\<close>

fun join_space :: "string list \<Rightarrow> string" where
  "join_space [] = []"
| "join_space [x] = x"
| "join_space (x # y # ys) = x @ '' '' @ join_space (y # ys)"

section \<open>Errors\<close>

text \<open>
  Every exception of class \<^verbatim>\<open>Exception\<close> that the modelled code can meet:
  \<open>ValueError\<close> is raised by \<^verbatim>\<open>deque(maxlen=...)\<close> on a negative length and by
  \<^verbatim>\<open>np.concatenate\<close> on an element that is \<^verbatim>\<open>None\<close>; the other two say that a
  collaborator (the speech-to-text model, the wake classifier) raised.
\<close>

datatype error = ValueError | TranscriptionError | ClassifierError

section \<open>Transcription tasks and their order\<close>

text \<open>\<^verbatim>\<open>class Priority\<close>: \<open>HIGH = 1\<close>, \<open>LOW = 2\<close>.\<close>

definition HIGH :: int where "HIGH = 1"
definition LOW :: int where "LOW = 2"

record TranscriptionTask =
  audio_file :: string
  language :: "string option"
  priority :: int
  task_id :: string
  timestamp :: real

text \<open>\<^verbatim>\<open>TranscriptionTask.__lt__\<close>\<close>

definition task_lt :: "TranscriptionTask \<Rightarrow> TranscriptionTask \<Rightarrow> bool" where
  "task_lt self other =
     (if priority self \<noteq> priority other then priority self < priority other
      else timestamp self < timestamp other)"

subsection \<open>The priority queue\<close>

text \<open>
  \<^verbatim>\<open>queue.PriorityQueue\<close> keeps its items in a list managed by \<^verbatim>\<open>heapq\<close>:
  \<open>put\<close> is \<open>heappush\<close>, \<open>get\<close> is \<open>heappop\<close>, and items are compared with
  \<^verbatim>\<open>__lt__\<close> only. The functions below follow the library's \<^verbatim>\<open>_siftdown\<close>,
  \<^verbatim>\<open>_siftup\<close>, \<^verbatim>\<open>heappush\<close> and \<^verbatim>\<open>heappop\<close>.
\<close>

function siftdown ::
  "TranscriptionTask list \<Rightarrow> nat \<Rightarrow> nat \<Rightarrow> TranscriptionTask \<Rightarrow> TranscriptionTask list" where
  "siftdown heap startpos pos newitem =
     (if startpos < pos then
        (let parentpos = (pos - 1) div 2; parent = heap ! parentpos
         in if task_lt newitem parent
            then siftdown (heap[pos := parent]) startpos parentpos newitem
            else heap[pos := newitem])
      else heap[pos := newitem])"
  by pat_completeness auto
termination
  by (relation "measure (\<lambda>(heap, startpos, pos, newitem). pos)") auto

definition heappush :: "TranscriptionTask list \<Rightarrow> TranscriptionTask \<Rightarrow> TranscriptionTask list" where
  "heappush heap item = siftdown (heap @ [item]) 0 (length heap) item"

function siftup_loop :: "TranscriptionTask list \<Rightarrow> nat \<Rightarrow> TranscriptionTask list \<times> nat" where
  "siftup_loop heap pos =
     (let childpos = 2 * pos + 1
      in if childpos < length heap then
           (let rightpos = childpos + 1;
                childpos' = (if rightpos < length heap
                                \<and> \<not> task_lt (heap ! childpos) (heap ! rightpos)
                             then rightpos else childpos)
            in siftup_loop (heap[pos := heap ! childpos']) childpos')
         else (heap, pos))"
  by pat_completeness auto
termination
  by (relation "measure (\<lambda>(heap, pos). length heap - pos)") (auto simp: Let_def)

definition siftup :: "TranscriptionTask list \<Rightarrow> nat \<Rightarrow> TranscriptionTask list" where
  "siftup heap pos =
     (let newitem = heap ! pos; (heap', pos') = siftup_loop heap pos
      in siftdown heap' pos pos' newitem)"

text \<open>
  \<open>heappop\<close> on an empty list raises \<^verbatim>\<open>IndexError\<close>; \<open>PriorityQueue.get\<close> never
  calls it then (it waits and raises \<^verbatim>\<open>queue.Empty\<close>), so the empty case is \<open>None\<close>.
\<close>

definition heappop :: "TranscriptionTask list \<Rightarrow> (TranscriptionTask \<times> TranscriptionTask list) option" where
  "heappop heap =
     (if heap = [] then None
      else (let lastelt = last heap; heap' = butlast heap
            in if heap' \<noteq> [] then Some (hd heap', siftup (heap'[0 := lastelt]) 0)
               else Some (lastelt, heap')))"

section \<open>The transcription service\<close>

text \<open>
  The speech-to-text collaborator \<^verbatim>\<open>model.transcribe(audio_file, **options)\<close> is a
  parameter: from the file and the language option it either returns a result whose
  \<^verbatim>\<open>"text"\<close> is the given string (\<open>Inr\<close>) or raises (\<open>Inl\<close>).
\<close>

type_synonym whisper = "string \<Rightarrow> string option \<Rightarrow> error + string"

text \<open>
  \<^verbatim>\<open>TranscriptionService._transcribe_task\<close>. \<open>transcribe_options\<close> is the
  \<^verbatim>\<open>options\<close> dictionary: the language is passed on only when it is truthy (neither
  \<^verbatim>\<open>None\<close> nor empty). \<open>transcribe_try\<close> is the body of the \<^verbatim>\<open>try\<close>, and
  \<open>transcribe_task\<close> adds the \<^verbatim>\<open>except Exception\<close> handler, which catches every
  exception of class \<^verbatim>\<open>Exception\<close>; a missing \<^verbatim>\<open>"text"\<close> in the result is such an
  exception of the collaborator's result and counts as raised.
\<close>

definition transcribe_options :: "string option \<Rightarrow> string option" where
  "transcribe_options lang = (case lang of None \<Rightarrow> None | Some l \<Rightarrow> if l = [] then None else Some l)"

definition transcribe_try :: "whisper \<Rightarrow> string \<Rightarrow> string option \<Rightarrow> error + string" where
  "transcribe_try model file lang =
     (case model file (transcribe_options lang) of
        Inl e \<Rightarrow> Inl e
      | Inr text \<Rightarrow> Inr (strip text))"

definition transcribe_task :: "whisper \<Rightarrow> string \<Rightarrow> string option \<Rightarrow> error + string" where
  "transcribe_task model file lang =
     (case transcribe_try model file lang of
        Inl e \<Rightarrow> Inr []
      | Inr text \<Rightarrow> Inr text)"


subsection \<open>Futures and the service's state\<close>

text \<open>
  A future of the thread pool is running (it holds the arguments of its call to
  \<^verbatim>\<open>_transcribe_task\<close>), done with the returned text, or failed because the call raised.
  The dictionaries \<^verbatim>\<open>futures\<close> and \<^verbatim>\<open>results\<close> are association lists in insertion
  order: \<open>d[k] = v\<close> is \<^const>\<open>AList.update\<close> (in place for an old key, at the end for a
  new one) and \<open>del d[k]\<close> is \<^const>\<open>AList.delete\<close>.
\<close>

datatype future = Running string "string option" | Done string | Failed

record service =
  task_queue :: "TranscriptionTask list"
  futures :: "(string \<times> future) list"
  results :: "(string \<times> string) list"

definition new_service :: service where
  "new_service = \<lparr>task_queue = [], futures = [], results = []\<rparr>"

text \<open>
  \<^verbatim>\<open>submit_task\<close>. The identifier \<^verbatim>\<open>f"{time.time()}_{id(audio_file)}"\<close> and the
  clock read of \<^verbatim>\<open>TranscriptionTask.__init__\<close> are inputs.
\<close>

definition submit_task ::
  "service \<Rightarrow> string \<Rightarrow> string option \<Rightarrow> int \<Rightarrow> string \<Rightarrow> real \<Rightarrow> string \<times> service" where
  "submit_task svc file lang prio tid now =
     (let task = \<lparr>audio_file = file, language = lang, priority = prio,
                  task_id = tid, timestamp = now\<rparr>
      in (tid, svc\<lparr>task_queue := heappush (task_queue svc) task\<rparr>))"

text \<open>
  \<^verbatim>\<open>get_result\<close>: \<^verbatim>\<open>future.result(timeout)\<close> returns the text of a done future,
  raises \<^verbatim>\<open>TimeoutError\<close> for a running one (the answer is then \<^verbatim>\<open>None\<close>) and
  re-raises for a failed one (the answer is then the empty string).
\<close>

definition get_result :: "service \<Rightarrow> string \<Rightarrow> string option \<times> service" where
  "get_result svc tid =
     (case map_of (results svc) tid of
        Some r \<Rightarrow> (Some r, svc\<lparr>results := AList.delete tid (results svc)\<rparr>)
      | None \<Rightarrow>
          (case map_of (futures svc) tid of
             Some (Done r) \<Rightarrow> (Some r, svc\<lparr>futures := AList.delete tid (futures svc)\<rparr>)
           | Some (Running f l) \<Rightarrow> (None, svc)
           | Some Failed \<Rightarrow> (Some [], svc\<lparr>futures := AList.delete tid (futures svc)\<rparr>)
           | None \<Rightarrow> (None, svc)))"

text \<open>
  \<^verbatim>\<open>transcribe_audio\<close> and \<^verbatim>\<open>get_transcription_result\<close> as \<^verbatim>\<open>main\<close> calls them
  (without a timeout for the first, so that it returns the task identifier).
\<close>

definition transcribe_audio ::
  "service \<Rightarrow> string \<Rightarrow> string option \<Rightarrow> int \<Rightarrow> string \<Rightarrow> real \<Rightarrow> string \<times> service" where
  "transcribe_audio svc file lang prio tid now = submit_task svc file lang prio tid now"

definition get_transcription_result :: "service \<Rightarrow> string \<Rightarrow> string option \<times> service" where
  "get_transcription_result svc tid = get_result svc tid"

subsection \<open>The worker thread and the thread pool\<close>

text \<open>
  The service's threads run beside \<^verbatim>\<open>main\<close>. Their progress is a list of events:
  \<open>Dispatch\<close> is one turn of \<^verbatim>\<open>_worker_loop\<close> (take the least task off the queue,
  hand it to the pool, store its future; nothing on an empty queue), and \<open>Complete tid\<close>
  is the pool finishing the call of the future stored under \<open>tid\<close>.
\<close>

datatype event = Dispatch | Complete string

definition worker_loop_step :: "service \<Rightarrow> service" where
  "worker_loop_step svc =
     (case heappop (task_queue svc) of
        None \<Rightarrow> svc
      | Some (task, q) \<Rightarrow>
          svc\<lparr>task_queue := q,
              futures := AList.update (task_id task)
                           (Running (audio_file task) (language task)) (futures svc)\<rparr>)"

definition pool_finish :: "whisper \<Rightarrow> string \<Rightarrow> service \<Rightarrow> service" where
  "pool_finish model tid svc =
     (case map_of (futures svc) tid of
        Some (Running f l) \<Rightarrow>
          svc\<lparr>futures := AList.update tid
                 (case transcribe_task model f l of Inl e \<Rightarrow> Failed | Inr text \<Rightarrow> Done text)
                 (futures svc)\<rparr>
      | _ \<Rightarrow> svc)"

fun run_event :: "whisper \<Rightarrow> service \<Rightarrow> event \<Rightarrow> service" where
  "run_event model svc Dispatch = worker_loop_step svc"
| "run_event model svc (Complete tid) = pool_finish model tid svc"

definition run_events :: "whisper \<Rightarrow> event list \<Rightarrow> service \<Rightarrow> service" where
  "run_events model evs svc = foldl (run_event model) svc evs"

section \<open>Wake word and silence\<close>

text \<open>
  The wake classifier is a collaborator with two methods; each returns (\<open>Inr\<close>) or
  raises (\<open>Inl\<close>). A classifier object is truthy. Every call made to it is recorded
  in a log, which is threaded through the functions that can call it.
\<close>

record classifier =
  classify :: "string \<Rightarrow> error + bool"
  classify_with_details :: "string \<Rightarrow> error + real"

datatype call = Classify string | ClassifyWithDetails string

text \<open>\<^verbatim>\<open>contains_wake_word(text, classifier=None)\<close>\<close>

definition contains_wake_word ::
  "string \<Rightarrow> classifier option \<Rightarrow> call list \<Rightarrow> error + (bool \<times> call list)" where
  "contains_wake_word text cl calls =
     (if contains (lower text) ''goose'' then
        (case cl of
           Some c \<Rightarrow>
             (case classify c text of
                Inl e \<Rightarrow> Inl e
              | Inr b \<Rightarrow> Inr (b, calls @ [Classify text]))
         | None \<Rightarrow> Inr (False, calls))
      else Inr (False, calls))"

text \<open>
  Audio is a list of samples. \<^verbatim>\<open>is_silence\<close> compares the mean absolute amplitude with
  the threshold; the model computes it in exact arithmetic where numpy rounds to
  float32. The mean of no samples is \<^verbatim>\<open>nan\<close>, which is below nothing.
\<close>

type_synonym audio = "real list"

definition SILENCE_THRESHOLD :: real where "SILENCE_THRESHOLD = 1 / 100"
definition BUFFER_DURATION :: int where "BUFFER_DURATION = 5"
definition LONG_BUFFER_DURATION :: real where "LONG_BUFFER_DURATION = 60"

definition is_silence :: "audio \<Rightarrow> bool" where
  "is_silence audio_data =
     (audio_data \<noteq> [] \<and>
      (\<Sum>x\<leftarrow>audio_data. \<bar>x\<bar>) / real (length audio_data) < SILENCE_THRESHOLD)"

text \<open>
  \<^verbatim>\<open>np.concatenate\<close> of a list of arrays: it raises on the empty list and on an element
  that is \<^verbatim>\<open>None\<close>.
\<close>

definition np_concatenate :: "audio option list \<Rightarrow> error + audio" where
  "np_concatenate arrays =
     (if arrays = [] \<or> None \<in> set arrays then Inl ValueError
      else Inr (concat (map the arrays)))"


section \<open>The main loop\<close>

subsection \<open>Its data\<close>

text \<open>
  A chunk is the tuple \<^verbatim>\<open>(audio_data, temp_file, transcript)\<close>; the audio of a periodic
  task's tuple and a transcript not yet filled in are \<^verbatim>\<open>None\<close>. A value of
  \<^verbatim>\<open>pending_tasks\<close> is a dictionary with the keys below; \<open>is_long\<close> and
  \<open>long_timestamp\<close> are read with \<^verbatim>\<open>.get\<close>, so a missing \<open>is_long\<close> is \<open>False\<close> and a
  missing \<open>long_timestamp\<close> is \<open>None\<close>.
\<close>

type_synonym chunk_info = "audio option \<times> string \<times> string option"

record task_info =
  chunk_info :: chunk_info
  info_timestamp :: real
  processed :: bool
  is_long :: bool
  long_timestamp :: "string option"

text \<open>A file written to the recordings directory: its name in there and what was written.\<close>

datatype artifact = AudioFile string audio | TextFile string string

text \<open>The command-line arguments that the loop reads.\<close>

record args =
  context_seconds :: int
  silence_seconds :: int
  args_language :: "string option"

text \<open>
  The local variables of \<^verbatim>\<open>main\<close>, with the maximal length of the deque
  \<^verbatim>\<open>context_buffer\<close>, the files written so far and the log of classifier calls.
  Writing a file always succeeds in the model; printing and the removal of temporary
  files are left out.
\<close>

record main_state =
  context_maxlen :: nat
  context_buffer :: "chunk_info list"
  conversation_counter :: int
  last_long_transcription_time :: real
  is_active_listening :: bool
  active_conversation_chunks :: "chunk_info list"
  silence_counter :: int
  pending_tasks :: "(string \<times> task_info) list"
  completed_tasks :: "string list"
  service :: service
  recordings :: "artifact list"
  classifier_calls :: "call list"

text \<open>
  \<^verbatim>\<open>int(args.context_seconds / BUFFER_DURATION)\<close>: the quotient truncated towards zero
  (the float quotient is exact enough for that below \<open>2^52\<close>).
\<close>

definition context_chunks :: "args \<Rightarrow> int" where
  "context_chunks a =
     (if 0 \<le> context_seconds a then context_seconds a div BUFFER_DURATION
      else - ((- context_seconds a) div BUFFER_DURATION))"

text \<open>
  \<^verbatim>\<open>deque.append\<close> on a deque with a maximal length: the item goes to the right end,
  and while the deque is longer than allowed its left end is dropped.
\<close>

definition deque_append :: "nat \<Rightarrow> 'a list \<Rightarrow> 'a \<Rightarrow> 'a list" where
  "deque_append n d x = (let d' = d @ [x] in if n < length d' then tl d' else d')"

text \<open>
  The state before the first turn of the loop. \<^verbatim>\<open>deque(maxlen=context_chunks)\<close>
  raises on a negative length.
\<close>

definition main_init :: "args \<Rightarrow> real \<Rightarrow> error + main_state" where
  "main_init a now =
     (if context_chunks a < 0 then Inl ValueError
      else Inr \<lparr>context_maxlen = nat (context_chunks a), context_buffer = [],
                conversation_counter = 0, last_long_transcription_time = now,
                is_active_listening = False, active_conversation_chunks = [],
                silence_counter = 0, pending_tasks = [], completed_tasks = [],
                service = new_service, recordings = [], classifier_calls = []\<rparr>)"

subsection \<open>One completed transcript\<close>

text \<open>The transcripts of a list of chunks that are truthy (neither \<^verbatim>\<open>None\<close> nor empty).\<close>

definition transcripts_of :: "chunk_info list \<Rightarrow> string list" where
  "transcripts_of chunks =
     concat (map (\<lambda>(a, f, t). case t of None \<Rightarrow> [] | Some text \<Rightarrow> if text = [] then [] else [text])
                 chunks)"

text \<open>
  The end of a conversation (the body of \<^verbatim>\<open>if silence_counter >= ...\<close>). \<open>stamp\<close> is
  the formatted \<^verbatim>\<open>datetime.now()\<close>.
\<close>

definition finalize_conversation :: "string \<Rightarrow> main_state \<Rightarrow> error + main_state" where
  "finalize_conversation stamp st =
     (let all_audio = map fst (context_buffer st) @ map fst (active_conversation_chunks st);
          all_transcripts = transcripts_of (context_buffer st)
                            @ transcripts_of (active_conversation_chunks st);
          reset = (\<lambda>s. s\<lparr>is_active_listening := False, active_conversation_chunks := [],
                          silence_counter := 0\<rparr>)
      in if all_audio \<noteq> [] then
           (case np_concatenate all_audio of
              Inl e \<Rightarrow> Inl e
            | Inr full_audio \<Rightarrow>
                Inr (reset (st\<lparr>recordings := recordings st @
                                  [AudioFile (''conversation_'' @ stamp @ ''.wav'') full_audio,
                                   TextFile (''conversation_'' @ stamp @ ''.txt'')
                                            (join_space all_transcripts)],
                                conversation_counter := conversation_counter st + 1\<rparr>)))
         else Inr (reset st))"

text \<open>
  The body of \<^verbatim>\<open>if transcript is not None\<close> after the bookkeeping: \<open>chunk\<close> is
  \<^verbatim>\<open>task_info['chunk_info']\<close> with the transcript filled in, and \<open>current_is_silence\<close>
  is the variable of that name, set once in each turn of the main loop.
\<close>

definition process_chunk ::
  "args \<Rightarrow> classifier \<Rightarrow> bool \<Rightarrow> string \<Rightarrow> chunk_info \<Rightarrow> string \<Rightarrow> main_state \<Rightarrow> error + main_state" where
  "process_chunk a cl current_is_silence stamp chunk transcript st =
     (if is_active_listening st then
        (let st1 = st\<lparr>active_conversation_chunks := active_conversation_chunks st @ [chunk]\<rparr>;
             st2 = st1\<lparr>silence_counter := (if current_is_silence then silence_counter st1 + 1 else 0)\<rparr>
         in if silence_seconds a div BUFFER_DURATION \<le> silence_counter st2
            then finalize_conversation stamp st2
            else Inr st2)
      else
        (let st1 = st\<lparr>context_buffer := deque_append (context_maxlen st) (context_buffer st) chunk\<rparr>
         in if transcript \<noteq> [] then
              (case contains_wake_word transcript (Some cl) (classifier_calls st1) of
                 Inl e \<Rightarrow> Inl e
               | Inr (woke, calls) \<Rightarrow>
                   (let st2 = st1\<lparr>classifier_calls := calls\<rparr>
                    in if woke then
                         (case classify_with_details cl transcript of
                            Inl e \<Rightarrow> Inl e
                          | Inr confidence \<Rightarrow>
                              Inr (st2\<lparr>classifier_calls := calls @ [ClassifyWithDetails transcript],
                                       is_active_listening := True,
                                       active_conversation_chunks := context_buffer st2,
                                       silence_counter := 0\<rparr>))
                       else Inr st2))
            else Inr st1))"


subsection \<open>The loops over the pending tasks\<close>

text \<open>
  The first loop, \<^verbatim>\<open>for task_id, task_info in pending_tasks.items()\<close>: it has no test
  of \<open>is_long\<close>. The loop neither adds nor removes a key, so it is a recursion over the
  items as they stand when it starts; a changed \<open>task_info\<close> is written back in place.
\<close>

fun process_completed ::
  "args \<Rightarrow> classifier \<Rightarrow> bool \<Rightarrow> string \<Rightarrow> (string \<times> task_info) list \<Rightarrow> main_state
   \<Rightarrow> error + main_state" where
  "process_completed a cl current_is_silence stamp [] st = Inr st"
| "process_completed a cl current_is_silence stamp ((tid, info) # rest) st =
     (if \<not> processed info then
        (case get_transcription_result (service st) tid of
           (None, svc) \<Rightarrow>
             process_completed a cl current_is_silence stamp rest (st\<lparr>service := svc\<rparr>)
         | (Some transcript, svc) \<Rightarrow>
             (let (audio_data, temp_file, _) = chunk_info info;
                  info' = info\<lparr>chunk_info := (audio_data, temp_file, Some transcript),
                               processed := True\<rparr>;
                  st1 = st\<lparr>service := svc,
                           pending_tasks := AList.update tid info' (pending_tasks st),
                           completed_tasks := completed_tasks st @ [tid]\<rparr>
              in case process_chunk a cl current_is_silence stamp (chunk_info info') transcript st1 of
                   Inl e \<Rightarrow> Inl e
                 | Inr st2 \<Rightarrow> process_completed a cl current_is_silence stamp rest st2))
      else process_completed a cl current_is_silence stamp rest st)"

text \<open>\<^verbatim>\<open>for task_id in completed_tasks: if task_id in pending_tasks: del ...\<close>\<close>

definition cleanup_completed :: "main_state \<Rightarrow> main_state" where
  "cleanup_completed st =
     st\<lparr>pending_tasks := foldl (\<lambda>p tid. AList.delete tid p) (pending_tasks st) (completed_tasks st)\<rparr>"

text \<open>
  The periodic long transcription. \<open>now\<close> is \<^verbatim>\<open>time.time()\<close>, \<open>stamp\<close> the formatted
  \<^verbatim>\<open>datetime.now()\<close>, \<open>tid\<close> the identifier that \<^verbatim>\<open>submit_task\<close> makes.
\<close>

definition periodic_transcription ::
  "args \<Rightarrow> string \<Rightarrow> real \<Rightarrow> string \<Rightarrow> main_state \<Rightarrow> error + main_state" where
  "periodic_transcription a stamp now tid st =
     (if LONG_BUFFER_DURATION \<le> now - last_long_transcription_time st then
        (if context_buffer st \<noteq> [] \<and> \<not> is_active_listening st then
           (let buffer_audio = map fst (context_buffer st)
            in if buffer_audio \<noteq> [] then
                 (case np_concatenate buffer_audio of
                    Inl e \<Rightarrow> Inl e
                  | Inr long_audio \<Rightarrow>
                      (let long_file = ''periodic_'' @ stamp @ ''.wav'';
                           (long_task_id, svc) =
                              transcribe_audio (service st) long_file (args_language a) LOW tid now
                       in Inr (st\<lparr>recordings := recordings st @ [AudioFile long_file long_audio],
                                   service := svc,
                                   pending_tasks :=
                                     AList.update long_task_id
                                       \<lparr>chunk_info = (None, long_file, None), info_timestamp = now,
                                        processed = False, is_long = True,
                                        long_timestamp = Some stamp\<rparr>
                                       (pending_tasks st),
                                   last_long_transcription_time := now\<rparr>)))
               else Inr (st\<lparr>last_long_transcription_time := now\<rparr>))
         else Inr (st\<lparr>last_long_transcription_time := now\<rparr>))
      else Inr st)"

text \<open>
  The second loop, \<^verbatim>\<open>for task_id, task_info in list(pending_tasks.items())\<close>, for the
  periodic tasks only.
\<close>

fun process_long :: "(string \<times> task_info) list \<Rightarrow> main_state \<Rightarrow> main_state" where
  "process_long [] st = st"
| "process_long ((tid, info) # rest) st =
     (if is_long info \<and> \<not> processed info then
        (case get_transcription_result (service st) tid of
           (None, svc) \<Rightarrow> process_long rest (st\<lparr>service := svc\<rparr>)
         | (Some transcript, svc) \<Rightarrow>
             process_long rest
               (st\<lparr>service := svc,
                   pending_tasks := AList.update tid (info\<lparr>processed := True\<rparr>) (pending_tasks st),
                   recordings := recordings st @
                     [TextFile (''periodic_''
                                @ (case long_timestamp info of None \<Rightarrow> ''None'' | Some t \<Rightarrow> t)
                                @ ''.txt'') transcript],
                   completed_tasks := completed_tasks st @ [tid]\<rparr>))
      else process_long rest st)"

subsection \<open>One turn of the loop\<close>

text \<open>
  What one turn of \<^verbatim>\<open>while running\<close> takes from outside: the blocks drained from the
  audio queue, the formatted time and the clock (each read once per turn in the model),
  the identifiers that \<^verbatim>\<open>submit_task\<close> makes for the chunk and for a periodic task, and
  what the service's threads do while the blocks are collected, before the first loop,
  before the periodic submission and before the second loop.
\<close>

record tick_input =
  captured :: "audio list"
  stamp :: string
  now :: real
  chunk_task_id :: string
  periodic_task_id :: string
  during_collection :: "event list"
  before_results :: "event list"
  before_periodic :: "event list"
  before_long :: "event list"

definition with_events :: "whisper \<Rightarrow> event list \<Rightarrow> main_state \<Rightarrow> main_state" where
  "with_events model evs st = st\<lparr>service := run_events model evs (service st)\<rparr>"

text \<open>
  The first part of a turn with audio: the chunk is cut, tested for silence (the flag
  is returned beside the state), submitted with HIGH priority and entered in
  \<^verbatim>\<open>pending_tasks\<close>; \<^verbatim>\<open>completed_tasks\<close> starts empty.
\<close>

definition capture_chunk :: "args \<Rightarrow> whisper \<Rightarrow> tick_input \<Rightarrow> main_state \<Rightarrow> bool \<times> main_state" where
  "capture_chunk a model inp st0 =
     (let st = with_events model (during_collection inp) st0;
          audio_data = concat (captured inp);
          temp_file = ''audio_chunk_'' @ stamp inp @ ''.wav'';
          current_is_silence = is_silence audio_data;
          (tid, svc) = transcribe_audio (service st) temp_file (args_language a) HIGH
                         (chunk_task_id inp) (now inp);
          st1 = st\<lparr>service := svc,
                   pending_tasks :=
                     AList.update tid
                       \<lparr>chunk_info = (Some audio_data, temp_file, None),
                        info_timestamp = now inp, processed = False, is_long = False,
                        long_timestamp = None\<rparr>
                       (pending_tasks st),
                   completed_tasks := []\<rparr>
      in (current_is_silence, with_events model (before_results inp) st1))"

text \<open>
  The whole turn. With no block collected the turn ends at once (\<^verbatim>\<open>continue\<close>);
  an exception leaves the loop.
\<close>

definition main_tick ::
  "args \<Rightarrow> whisper \<Rightarrow> classifier \<Rightarrow> tick_input \<Rightarrow> main_state \<Rightarrow> error + main_state" where
  "main_tick a model cl inp st0 =
     (if captured inp = [] then Inr (with_events model (during_collection inp) st0)
      else
        (let (current_is_silence, st2) = capture_chunk a model inp st0
         in case process_completed a cl current_is_silence (stamp inp) (pending_tasks st2) st2 of
              Inl e \<Rightarrow> Inl e
            | Inr st3 \<Rightarrow>
                (let st4 = with_events model (before_periodic inp) (cleanup_completed st3)
                 in case periodic_transcription a (stamp inp) (now inp) (periodic_task_id inp) st4 of
                      Inl e \<Rightarrow> Inl e
                    | Inr st5 \<Rightarrow>
                        (let st6 = with_events model (before_long inp) st5
                         in Inr (process_long (pending_tasks st6) st6)))))"

text \<open>Several turns, stopping at the first exception (which ends \<^verbatim>\<open>main\<close>).\<close>

fun main_loop ::
  "args \<Rightarrow> whisper \<Rightarrow> classifier \<Rightarrow> tick_input list \<Rightarrow> main_state \<Rightarrow> error + main_state" where
  "main_loop a model cl [] st = Inr st"
| "main_loop a model cl (inp # inps) st =
     (case main_tick a model cl inp st of
        Inl e \<Rightarrow> Inl e
      | Inr st' \<Rightarrow> main_loop a model cl inps st')"


subsection \<open>What the first loop retrieves\<close>

text \<open>
  Two notions for stating properties of the first loop. An entry of \<^verbatim>\<open>pending_tasks\<close>
  is \<open>ready\<close> in a service when it is not yet processed and \<^verbatim>\<open>get_result\<close> has a
  transcript for it; \<open>filled\<close> is then its chunk with that transcript filled in.
\<close>

definition ready :: "service \<Rightarrow> string \<times> task_info \<Rightarrow> bool" where
  "ready svc item =
     (\<not> processed (snd item) \<and> fst (get_transcription_result svc (fst item)) \<noteq> None)"

definition filled :: "service \<Rightarrow> string \<times> task_info \<Rightarrow> chunk_info" where
  "filled svc item =
     (let (audio_data, temp_file, _) = chunk_info (snd item)
      in (audio_data, temp_file, fst (get_transcription_result svc (fst item))))"

section \<open>Concrete inputs\<close>




text \<open>A speech-to-text model that pads its text with blanks, and one that always raises.\<close>

definition padding_model :: whisper where
  "padding_model = (\<lambda>file lang. Inr ''  hello world  '')"

definition raising_model :: whisper where
  "raising_model = (\<lambda>file lang. Inl TranscriptionError)"

text \<open>
  Arguments: the defaults (30 s of context, 3 s of silence), and variants with 5 s, 10 s
  and 20 s of silence or with 10 s of context.
\<close>

definition default_args :: args where
  "default_args = \<lparr>context_seconds = 30, silence_seconds = 3, args_language = None\<rparr>"

definition five_args :: args where
  "five_args = \<lparr>context_seconds = 30, silence_seconds = 5, args_language = None\<rparr>"


definition long_args :: args where
  "long_args = \<lparr>context_seconds = 30, silence_seconds = 20, args_language = None\<rparr>"


text \<open>Classifiers: one that always says yes, one that always raises.\<close>

definition always_yes :: classifier where
  "always_yes = \<lparr>classify = (\<lambda>tr. Inr True), classify_with_details = (\<lambda>tr. Inr (9 / 10))\<rparr>"

definition always_raises :: classifier where
  "always_raises = \<lparr>classify = (\<lambda>tr. Inl ClassifierError),
                    classify_with_details = (\<lambda>tr. Inl ClassifierError)\<rparr>"

text \<open>
  Audio: two loud chunks and a quiet one (mean amplitudes 1/2, 1/4 and 1/1000 against the
  threshold 1/100).
\<close>

definition loud :: audio where
  "loud = [1 / 2, - 1 / 2]"

definition speech :: audio where
  "speech = [1 / 4, - 1 / 4]"

definition quiet :: audio where
  "quiet = [1 / 1000, - 1 / 1000]"

text \<open>
  \<open>turn n t samples evs\<close> is a turn of the main loop at clock \<open>t\<close> that collects
  one block \<open>samples\<close>, names its files and tasks after \<open>n\<close>, and during whose
  collection the service's threads do \<open>evs\<close>. \<open>run\<close> is the program from its start
  at clock 0.
\<close>

definition turn :: "string \<Rightarrow> real \<Rightarrow> audio \<Rightarrow> event list \<Rightarrow> tick_input" where
  "turn n t samples evs =
     \<lparr>captured = [samples], stamp = n, now = t, chunk_task_id = ''t'' @ n,
      periodic_task_id = ''p'' @ n, during_collection = evs, before_results = [],
      before_periodic = [], before_long = []\<rparr>"

definition run :: "args \<Rightarrow> whisper \<Rightarrow> classifier \<Rightarrow> tick_input list \<Rightarrow> error + main_state" where
  "run a model cl inps =
     (case main_init a 0 of Inl e \<Rightarrow> Inl e | Inr s0 \<Rightarrow> main_loop a model cl inps s0)"




text \<open>
  A conversation: the first chunk holds the wake word, the second is speech; each
  transcript is there one turn after its chunk was cut. The third chunk is quiet in the
  first run and loud in the second.
\<close>

definition talk_model :: whisper where
  "talk_model = (\<lambda>file lang. if file = ''audio_chunk_1.wav'' then Inr ''hey goose''
                           else if file = ''audio_chunk_2.wav'' then Inr ''turn on the lights''
                           else Inr '''')"

definition talk_then_quiet :: "tick_input list" where
  "talk_then_quiet = [turn ''1'' 5 loud [], turn ''2'' 10 speech [Dispatch, Complete ''t1''],
                      turn ''3'' 15 quiet [Dispatch, Complete ''t2'']]"

definition talk_then_talk :: "tick_input list" where
  "talk_then_talk = [turn ''1'' 5 loud [], turn ''2'' 10 speech [Dispatch, Complete ''t1''],
                     turn ''3'' 15 loud [Dispatch, Complete ''t2'']]"

definition wake_chunk :: chunk_info where
  "wake_chunk = (Some loud, ''audio_chunk_1.wav'', Some ''hey goose'')"


text \<open>
  A periodic transcription: it is submitted in the second turn (clock 65). In the first
  run its result is there when the third turn starts, in the second run it arrives
  between the two loops of the third turn. \<open>late_turn\<close> is a fourth turn at clock 130.
\<close>

definition ambient_model :: whisper where
  "ambient_model = (\<lambda>file lang. if file = ''audio_chunk_1.wav'' then Inr ''hello''
                           else if file = ''periodic_2.wav'' then Inr ''hello again''
                           else Inr '''')"

definition goose_ambient_model :: whisper where
  "goose_ambient_model = (\<lambda>file lang. if file = ''audio_chunk_1.wav'' then Inr ''hello''
                           else if file = ''periodic_2.wav'' then Inr ''hello goose''
                           else Inr '''')"

definition periodic_turns :: "tick_input list" where
  "periodic_turns = [turn ''1'' 5 loud [], turn ''2'' 65 speech [Dispatch, Complete ''t1''],
                     turn ''3'' 70 quiet [Dispatch, Dispatch, Complete ''p2'']]"

definition periodic_turns_late :: "tick_input list" where
  "periodic_turns_late = [turn ''1'' 5 loud [], turn ''2'' 65 speech [Dispatch, Complete ''t1''],
      (turn ''3'' 70 quiet [Dispatch, Dispatch])\<lparr>before_long := [Complete ''p2'']\<rparr>]"

definition late_turn :: tick_input where
  "late_turn = turn ''4'' 130 quiet [Complete ''t2'']"

text \<open>
  States: the initial state of the default arguments; a state after the wake word (the
  second chunk pending), without and with the second chunk's transcript ready; and a
  passive state with three pending chunks of which the last two are ready.
\<close>

definition passive_state :: main_state where
  "passive_state =
     \<lparr>context_maxlen = 6, context_buffer = [], conversation_counter = 0,
      last_long_transcription_time = 0, is_active_listening = False,
      active_conversation_chunks = [], silence_counter = 0, pending_tasks = [],
      completed_tasks = [], service = new_service, recordings = [], classifier_calls = []\<rparr>"

definition listening_state :: main_state where
  "listening_state =
     \<lparr>context_maxlen = 6, context_buffer = [wake_chunk], conversation_counter = 0,
      last_long_transcription_time = 0, is_active_listening = True,
      active_conversation_chunks = [wake_chunk], silence_counter = 0,
      pending_tasks = [(''t2'', \<lparr>chunk_info = (Some speech, ''audio_chunk_2.wav'', None),
                                  info_timestamp = 10, processed = False, is_long = False,
                                  long_timestamp = None\<rparr>)],
      completed_tasks = [''t1''],
      service = \<lparr>task_queue = [\<lparr>audio_file = ''audio_chunk_2.wav'', language = None,
                                 priority = HIGH, task_id = ''t2'', timestamp = 10\<rparr>],
                 futures = [], results = []\<rparr>,
      recordings = [],
      classifier_calls = [Classify ''hey goose'', ClassifyWithDetails ''hey goose'']\<rparr>"


definition two_done_state :: main_state where
  "two_done_state =
     \<lparr>context_maxlen = 6, context_buffer = [], conversation_counter = 0,
      last_long_transcription_time = 0, is_active_listening = False,
      active_conversation_chunks = [], silence_counter = 0,
      pending_tasks = [(''t1'', \<lparr>chunk_info = (Some loud, ''audio_chunk_1.wav'', None),
                                  info_timestamp = 5, processed = False, is_long = False,
                                  long_timestamp = None\<rparr>),
                       (''t2'', \<lparr>chunk_info = (Some speech, ''audio_chunk_2.wav'', None),
                                  info_timestamp = 10, processed = False, is_long = False,
                                  long_timestamp = None\<rparr>),
                       (''t3'', \<lparr>chunk_info = (Some quiet, ''audio_chunk_3.wav'', None),
                                  info_timestamp = 15, processed = False, is_long = False,
                                  long_timestamp = None\<rparr>)],
      completed_tasks = [],
      service = \<lparr>task_queue = [],
                 futures = [(''t1'', Running ''audio_chunk_1.wav'' None),
                            (''t2'', Done ''second''), (''t3'', Done ''third'')],
                 results = []\<rparr>,
      recordings = [], classifier_calls = []\<rparr>"

section \<open>The order of the priority queue\<close>







section \<open>The worker's transcription function\<close>

lemma strip_split:
  "\<exists>pre suf. text = pre @ strip text @ suf
     \<and> (\<forall>c\<in>set pre. isspace c) \<and> (\<forall>c\<in>set suf. isspace c)"
proof -
  define m where "m = dropWhile isspace text"
  have 1: "text = takeWhile isspace text @ m" by (simp add: m_def)
  have "m = rev (takeWhile isspace (rev m) @ dropWhile isspace (rev m))"
    by (simp only: takeWhile_dropWhile_id rev_rev_ident)
  also have "\<dots> = rev (dropWhile isspace (rev m)) @ rev (takeWhile isspace (rev m))"
    by (simp only: rev_append)
  finally have 2: "m = strip text @ rev (takeWhile isspace (rev m))"
    by (simp only: strip_def m_def)
  have 3: "\<forall>c\<in>set (takeWhile isspace text). isspace c" by (auto dest: set_takeWhileD)
  have 4: "\<forall>c\<in>set (rev (takeWhile isspace (rev m))). isspace c" by (auto dest: set_takeWhileD)
  from 1 2 have "text = takeWhile isspace text @ strip text @ rev (takeWhile isspace (rev m))"
    by simp
  with 3 4 show ?thesis by blast
qed

lemma strip_ends:
  assumes "strip text \<noteq> []"
  shows "\<not> isspace (hd (strip text)) \<and> \<not> isspace (last (strip text))"
proof -
  define m where "m = dropWhile isspace text"
  have s: "strip text = rev (dropWhile isspace (rev m))" by (simp add: strip_def m_def)
  from assms s have ne: "dropWhile isspace (rev m) \<noteq> []" by simp
  then have "\<not> isspace (hd (dropWhile isspace (rev m)))" by (rule hd_dropWhile)
  with ne s have l: "\<not> isspace (last (strip text))" by (simp add: last_rev)
  have "m = rev (takeWhile isspace (rev m) @ dropWhile isspace (rev m))"
    by (simp only: takeWhile_dropWhile_id rev_rev_ident)
  also have "\<dots> = rev (dropWhile isspace (rev m)) @ rev (takeWhile isspace (rev m))"
    by (simp only: rev_append)
  finally have 2: "m = strip text @ rev (takeWhile isspace (rev m))"
    by (simp only: s)
  with assms have mne: "m \<noteq> []" by auto
  then have "\<not> isspace (hd m)" unfolding m_def by (rule hd_dropWhile)
  moreover from 2 assms have "hd m = hd (strip text)" by (metis hd_append2)
  ultimately show ?thesis using l by simp
qed

text \<open>
  C9. For every file and language, \<open>_transcribe_task\<close> returns normally. When the
  collaborator returns a text the result is that text without the whitespace around
  it: the text is the result between two runs of whitespace, and a result that is not
  empty neither starts nor ends with whitespace. When the collaborator raises, the
  result is the empty string.
\<close>

theorem transcribe_task_trims_and_swallows:
  "(\<forall>text. model file (transcribe_options lang) = Inr text \<longrightarrow>
      transcribe_task model file lang = Inr (strip text)
      \<and> (\<exists>pre suf. text = pre @ strip text @ suf
            \<and> (\<forall>c\<in>set pre. isspace c) \<and> (\<forall>c\<in>set suf. isspace c))
      \<and> (strip text \<noteq> [] \<longrightarrow> \<not> isspace (hd (strip text)) \<and> \<not> isspace (last (strip text))))
   \<and> (\<forall>e. model file (transcribe_options lang) = Inl e \<longrightarrow>
         transcribe_task model file lang = Inr [])"
  using strip_split strip_ends
  by (simp add: transcribe_task_def transcribe_try_def)

theorem transcribe_task_trims_and_swallows_witness:
  "padding_model ''chunk.wav'' (transcribe_options (Some ''en'')) = Inr ''  hello world  ''
   \<and> transcribe_task padding_model ''chunk.wav'' (Some ''en'') = Inr ''hello world''
   \<and> raising_model ''chunk.wav'' (transcribe_options None) = Inl TranscriptionError
   \<and> transcribe_task raising_model ''chunk.wav'' None = Inr []"
  using transcribe_task_trims_and_swallows [of padding_model "''chunk.wav''" "Some ''en''"]
        transcribe_task_trims_and_swallows [of raising_model "''chunk.wav''" None]
  by (simp add: padding_model_def raising_model_def strip_def isspace_def)

section \<open>What the parts of a turn leave alone\<close>

lemma get_result_none: "get_result svc tid = (None, svc') \<Longrightarrow> svc' = svc"
  by (auto simp: get_result_def split: option.splits future.splits)

lemma get_result_other:
  "tid' \<noteq> tid \<Longrightarrow> fst (get_result (snd (get_result svc tid')) tid) = fst (get_result svc tid)"
  by (auto simp: get_result_def split: option.splits future.splits)

lemma ready_after:
  assumes "tid' \<noteq> fst item" and "get_transcription_result svc tid' = (r, svc')"
  shows "ready svc' item = ready svc item" and "filled svc' item = filled svc item"
proof -
  from assms(2) have "svc' = snd (get_result svc tid')"
    by (simp add: get_transcription_result_def)
  with assms(1) have "fst (get_result svc' (fst item)) = fst (get_result svc (fst item))"
    by (simp add: get_result_other)
  then show "ready svc' item = ready svc item" and "filled svc' item = filled svc item"
    by (simp_all add: ready_def filled_def get_transcription_result_def)
qed

lemma ready_after_all:
  assumes "tid' \<notin> fst ` set items" and "get_transcription_result svc tid' = (r, svc')"
  shows "filter (ready svc') items = filter (ready svc) items"
    and "map (filled svc') (filter (ready svc) items) = map (filled svc) (filter (ready svc) items)"
proof -
  have ne: "\<And>item. item \<in> set items \<Longrightarrow> tid' \<noteq> fst item" using assms(1) by auto
  show "filter (ready svc') items = filter (ready svc) items"
    by (rule filter_cong[OF refl]) (simp add: ready_after(1)[OF ne assms(2)])
  show "map (filled svc') (filter (ready svc) items) = map (filled svc) (filter (ready svc) items)"
    by (rule map_cong[OF refl]) (simp add: ready_after(2)[OF ne assms(2)])
qed






section \<open>The context buffer is bounded\<close>












section \<open>One pass of the first loop\<close>

lemma process_chunk_passive_plain:
  assumes "\<not> is_active_listening st" and "\<not> contains (lower transcript) ''goose''"
  shows "process_chunk a cl sil sp chunk transcript st =
           Inr (st\<lparr>context_buffer := deque_append (context_maxlen st) (context_buffer st) chunk\<rparr>)"
  using assms by (simp add: process_chunk_def contains_wake_word_def Let_def)


lemma process_completed_passive:
  assumes "distinct (map fst items)"
    and "\<not> is_active_listening st"
    and "\<forall>item\<in>set items. ready (service st) item \<longrightarrow>
           (\<forall>text. fst (get_transcription_result (service st) (fst item)) = Some text \<longrightarrow>
                   \<not> contains (lower text) ''goose'')"
  shows "\<exists>st'. process_completed a cl sil sp items st = Inr st'
           \<and> context_buffer st' =
               foldl (deque_append (context_maxlen st)) (context_buffer st)
                     (map (filled (service st)) (filter (ready (service st)) items))
           \<and> \<not> is_active_listening st' \<and> context_maxlen st' = context_maxlen st
           \<and> active_conversation_chunks st' = active_conversation_chunks st
           \<and> classifier_calls st' = classifier_calls st"
  using assms
proof (induction items arbitrary: st)
  case Nil
  then show ?case by simp
next
  case (Cons item items)
  obtain tid info where item: "item = (tid, info)" by (cases item)
  from Cons.prems(1) item have dist: "distinct (map fst items)" and notin: "tid \<notin> fst ` set items"
    by auto
  obtain r svc where g: "get_transcription_result (service st) tid = (r, svc)"
    by (cases "get_transcription_result (service st) tid")
  have same: "filter (ready svc) items = filter (ready (service st)) items"
     "map (filled svc) (filter (ready (service st)) items)
        = map (filled (service st)) (filter (ready (service st)) items)"
    using ready_after_all[OF notin g] by simp_all
  have hyp_rest: "\<forall>item\<in>set items. ready svc item \<longrightarrow>
           (\<forall>text. fst (get_transcription_result svc (fst item)) = Some text \<longrightarrow>
                   \<not> contains (lower text) ''goose'')"
  proof (intro ballI impI allI)
    fix it tr
    assume it: "it \<in> set items" and rd: "ready svc it"
      and tx: "fst (get_transcription_result svc (fst it)) = Some tr"
    from it notin have ne: "tid \<noteq> fst it" by auto
    from ready_after[OF ne g] rd have rd0: "ready (service st) it" by simp
    from g have "svc = snd (get_result (service st) tid)" by (simp add: get_transcription_result_def)
    with ne tx have "fst (get_transcription_result (service st) (fst it)) = Some tr"
      by (simp add: get_transcription_result_def get_result_other)
    with Cons.prems(3) it rd0 show "\<not> contains (lower tr) ''goose''" by auto
  qed
  show ?case
  proof (cases "processed info")
    case True
    then have nr: "\<not> ready (service st) item" by (simp add: ready_def item)
    from Cons.prems(3) have "\<forall>item\<in>set items. ready (service st) item \<longrightarrow>
           (\<forall>text. fst (get_transcription_result (service st) (fst item)) = Some text \<longrightarrow>
                   \<not> contains (lower text) ''goose'')" by simp
    from Cons.IH[OF dist Cons.prems(2) this] True nr item show ?thesis by simp
  next
    case False
    show ?thesis
    proof (cases r)
      case None
      with g have svc: "svc = service st"
        by (simp add: get_transcription_result_def get_result_none)
      from None g False have nr: "\<not> ready (service st) item" by (simp add: ready_def item)
      have st_eq: "st\<lparr>service := svc\<rparr> = st" by (simp add: svc)
      from Cons.prems(3) have "\<forall>item\<in>set items. ready (service st) item \<longrightarrow>
           (\<forall>text. fst (get_transcription_result (service st) (fst item)) = Some text \<longrightarrow>
                   \<not> contains (lower text) ''goose'')" by simp
      from Cons.IH[OF dist Cons.prems(2) this] False None g nr item st_eq show ?thesis by simp
    next
      case (Some transcript)
      from Some g False have rd: "ready (service st) item" by (simp add: ready_def item)
      with Cons.prems(3) Some g item have nog: "\<not> contains (lower transcript) ''goose''" by auto
      obtain au f t where ci: "chunk_info info = (au, f, t)" by (cases "chunk_info info")
      define info' where "info' = info\<lparr>chunk_info := (au, f, Some transcript), processed := True\<rparr>"
      define st1 where "st1 = st\<lparr>service := svc,
           pending_tasks := AList.update tid info' (pending_tasks st),
           completed_tasks := completed_tasks st @ [tid]\<rparr>"
      define st2 where "st2 = st1\<lparr>context_buffer :=
           deque_append (context_maxlen st1) (context_buffer st1) (chunk_info info')\<rparr>"
      have pass1: "\<not> is_active_listening st1" using Cons.prems(2) by (simp add: st1_def)
      have pc: "process_chunk a cl sil sp (chunk_info info') transcript st1 = Inr st2"
        unfolding st2_def by (rule process_chunk_passive_plain[OF pass1 nog])
      have step: "process_completed a cl sil sp (item # items) st
                  = process_completed a cl sil sp items st2"
        using False g Some ci pc by (simp add: item info'_def st1_def)
      have fl: "filled (service st) item = chunk_info info'"
        using g Some ci by (simp add: filled_def item info'_def)
      have s2: "service st2 = svc" "\<not> is_active_listening st2"
        "context_maxlen st2 = context_maxlen st"
        "context_buffer st2 = deque_append (context_maxlen st) (context_buffer st) (chunk_info info')"
        "active_conversation_chunks st2 = active_conversation_chunks st"
        "classifier_calls st2 = classifier_calls st"
        using Cons.prems(2) by (simp_all add: st2_def st1_def)
      from hyp_rest s2(1) have h2: "\<forall>item\<in>set items. ready (service st2) item \<longrightarrow>
           (\<forall>text. fst (get_transcription_result (service st2) (fst item)) = Some text \<longrightarrow>
                   \<not> contains (lower text) ''goose'')" by simp
      from Cons.IH[OF dist s2(2) h2] obtain st' where
        r: "process_completed a cl sil sp items st2 = Inr st'"
        "context_buffer st' = foldl (deque_append (context_maxlen st2)) (context_buffer st2)
                     (map (filled (service st2)) (filter (ready (service st2)) items))"
        "\<not> is_active_listening st'" "context_maxlen st' = context_maxlen st2"
        "active_conversation_chunks st' = active_conversation_chunks st2"
        "classifier_calls st' = classifier_calls st2"
        by blast
      from r s2 same rd fl step show ?thesis by simp
    qed
  qed
qed





section \<open>The wake word\<close>

text \<open>
  C10. Called without a classifier, \<open>contains_wake_word\<close> answers \<open>False\<close> for every
  text, with or without the word in it, and calls nothing.
\<close>

theorem contains_wake_word_no_classifier:
  "contains_wake_word text None calls = Inr (False, calls)"
  by (simp add: contains_wake_word_def)

text \<open>
  C7. In the passive state a completed transcript switches to active listening only
  if its lower-cased text contains \<open>goose\<close> and the classifier answered true for it.
  For a transcript without the word, whatever the classifier would do, the step
  succeeds, stays passive and makes no call to the classifier; and so does a whole
  pass of the first loop in which no retrieved transcript has the word.
\<close>

theorem wake_only_on_word_and_classifier:
  assumes "\<not> is_active_listening st"
  shows "(\<forall>st'. process_chunk a cl sil sp chunk transcript st = Inr st' \<and> is_active_listening st'
            \<longrightarrow> contains (lower transcript) ''goose'' \<and> classify cl transcript = Inr True)
       \<and> (\<not> contains (lower transcript) ''goose'' \<longrightarrow>
            contains_wake_word transcript (Some cl) calls = Inr (False, calls)
            \<and> (\<exists>st'. process_chunk a cl sil sp chunk transcript st = Inr st'
                  \<and> \<not> is_active_listening st'
                  \<and> classifier_calls st' = classifier_calls st))
       \<and> (distinct (map fst items)
            \<and> (\<forall>item\<in>set items. ready (service st) item \<longrightarrow>
                  (case fst (get_transcription_result (service st) (fst item)) of
                     None \<Rightarrow> True | Some tr \<Rightarrow> \<not> contains (lower tr) ''goose'')) \<longrightarrow>
            (\<exists>st'. process_completed a cl sil sp items st = Inr st'
                  \<and> \<not> is_active_listening st'
                  \<and> classifier_calls st' = classifier_calls st))"
proof (intro conjI allI impI)
  fix st'
  assume h: "process_chunk a cl sil sp chunk transcript st = Inr st' \<and> is_active_listening st'"
  with assms show "contains (lower transcript) ''goose''"
    by (auto simp: process_chunk_def contains_wake_word_def Let_def
             split: if_splits sum.splits prod.splits)
  from h assms show "classify cl transcript = Inr True"
    by (auto simp: process_chunk_def contains_wake_word_def Let_def
             split: if_splits sum.splits prod.splits)
next
  assume n: "\<not> contains (lower transcript) ''goose''"
  then show "contains_wake_word transcript (Some cl) calls = Inr (False, calls)"
    by (simp add: contains_wake_word_def)
  from n assms show "\<exists>st'. process_chunk a cl sil sp chunk transcript st = Inr st'
                  \<and> \<not> is_active_listening st'
                  \<and> classifier_calls st' = classifier_calls st"
    by (simp add: process_chunk_def contains_wake_word_def Let_def)
next
  assume h: "distinct (map fst items)
            \<and> (\<forall>item\<in>set items. ready (service st) item \<longrightarrow>
                  (case fst (get_transcription_result (service st) (fst item)) of
                     None \<Rightarrow> True | Some tr \<Rightarrow> \<not> contains (lower tr) ''goose''))"
  then have d: "distinct (map fst items)" by simp
  from h have "\<forall>item\<in>set items. ready (service st) item \<longrightarrow>
           (\<forall>tr. fst (get_transcription_result (service st) (fst item)) = Some tr \<longrightarrow>
                   \<not> contains (lower tr) ''goose'')"
    by (auto split: option.splits)
  from process_completed_passive[OF d assms this, of a cl sil sp]
  show "\<exists>st'. process_completed a cl sil sp items st = Inr st'
                  \<and> \<not> is_active_listening st'
                  \<and> classifier_calls st' = classifier_calls st"
    by blast
qed

theorem wake_only_on_word_and_classifier_witness:
  "\<not> is_active_listening passive_state
   \<and> (\<exists>st'. process_chunk default_args always_yes False ''1''
               (Some loud, ''audio_chunk_1.wav'', Some ''Hey Goose'') ''Hey Goose'' passive_state
             = Inr st' \<and> is_active_listening st')
   \<and> contains (lower ''Hey Goose'') ''goose'' \<and> classify always_yes ''Hey Goose'' = Inr True
   \<and> \<not> contains (lower ''good morning'') ''goose''
   \<and> (\<exists>st'. process_chunk default_args always_raises False ''1''
               (Some loud, ''audio_chunk_1.wav'', Some ''good morning'') ''good morning''
               passive_state = Inr st'
          \<and> \<not> is_active_listening st' \<and> classifier_calls st' = classifier_calls passive_state)
   \<and> \<not> is_active_listening two_done_state
   \<and> distinct (map fst (pending_tasks two_done_state))
   \<and> list_all (\<lambda>item. ready (service two_done_state) item \<longrightarrow>
         (case fst (get_transcription_result (service two_done_state) (fst item)) of
            None \<Rightarrow> True | Some tr \<Rightarrow> \<not> contains (lower tr) ''goose''))
       (pending_tasks two_done_state)
   \<and> (\<exists>st'. process_completed default_args always_raises True ''4''
               (pending_tasks two_done_state) two_done_state = Inr st'
          \<and> \<not> is_active_listening st' \<and> classifier_calls st' = classifier_calls two_done_state)"
proof -
  have p: "\<not> is_active_listening passive_state" by code_simp
  note t = wake_only_on_word_and_classifier[OF p, of default_args always_yes False "''1''"
        "(Some loud, ''audio_chunk_1.wav'', Some ''Hey Goose'')" "''Hey Goose''" "[]" "[]"]
  note u = wake_only_on_word_and_classifier[OF p, of default_args always_raises False "''1''"
        "(Some loud, ''audio_chunk_1.wav'', Some ''good morning'')" "''good morning''" "[]" "[]"]
  have "case process_chunk default_args always_yes False ''1''
               (Some loud, ''audio_chunk_1.wav'', Some ''Hey Goose'') ''Hey Goose'' passive_state of
          Inl e \<Rightarrow> False | Inr s \<Rightarrow> is_active_listening s" by code_simp
  then obtain s1 where s1: "process_chunk default_args always_yes False ''1''
               (Some loud, ''audio_chunk_1.wav'', Some ''Hey Goose'') ''Hey Goose'' passive_state
             = Inr s1 \<and> is_active_listening s1"
    by (auto split: sum.splits)
  with t
  have w: "contains (lower ''Hey Goose'') ''goose'' \<and> classify always_yes ''Hey Goose'' = Inr True"
    by blast
  have n: "\<not> contains (lower ''good morning'') ''goose''" by code_simp
  with u
  have q: "\<exists>st'. process_chunk default_args always_raises False ''1''
               (Some loud, ''audio_chunk_1.wav'', Some ''good morning'') ''good morning''
               passive_state = Inr st'
          \<and> \<not> is_active_listening st' \<and> classifier_calls st' = classifier_calls passive_state"
    by blast
  have p2: "\<not> is_active_listening two_done_state" by code_simp
  have d2: "distinct (map fst (pending_tasks two_done_state))" by code_simp
  have n0: "list_all (\<lambda>item. ready (service two_done_state) item \<longrightarrow>
         (case fst (get_transcription_result (service two_done_state) (fst item)) of
            None \<Rightarrow> True | Some tr \<Rightarrow> \<not> contains (lower tr) ''goose''))
       (pending_tasks two_done_state)" by code_simp
  then have n2: "\<forall>item\<in>set (pending_tasks two_done_state). ready (service two_done_state) item \<longrightarrow>
         (case fst (get_transcription_result (service two_done_state) (fst item)) of
            None \<Rightarrow> True | Some tr \<Rightarrow> \<not> contains (lower tr) ''goose'')"
    by (simp only: list_all_iff)
  note v = wake_only_on_word_and_classifier[OF p2, of default_args always_raises True "''4''"
        wake_chunk "''hey goose''" "[]" "pending_tasks two_done_state"]
  from v d2 n2
  have r: "\<exists>st'. process_completed default_args always_raises True ''4''
               (pending_tasks two_done_state) two_done_state = Inr st'
          \<and> \<not> is_active_listening st' \<and> classifier_calls st' = classifier_calls two_done_state"
    by blast
  from p s1 w n q p2 d2 n0 r show ?thesis by blast
qed

section \<open>The order in which chunks are appended\<close>




section \<open>Silence\<close>


text \<open>The state after the wake word is the one the program reaches in two turns.\<close>

lemma listening_state_reached:
  "run long_args talk_model always_yes (take 2 talk_then_quiet) = Inr listening_state"
  by code_simp



text \<open>
  C2. The threshold is \<open>silence_seconds div 5\<close>, which is 0 for the default of 3
  seconds, where the rounded-up quotient is 1. With the defaults the conversation that
  the first transcript opened is ended by the very next transcript, although no chunk
  of the run is silent and the counter is 0.
\<close>

theorem default_threshold_ends_without_silence:
  "\<not> isl (run default_args talk_model always_yes (take 2 talk_then_talk))
   \<and> is_active_listening (projr (run default_args talk_model always_yes (take 2 talk_then_talk)))
   \<and> silence_counter (projr (run default_args talk_model always_yes (take 2 talk_then_talk))) = 0
   \<and> conversation_counter (projr (run default_args talk_model always_yes (take 2 talk_then_talk))) = 0
   \<and> \<not> isl (run default_args talk_model always_yes talk_then_talk)
   \<and> \<not> is_active_listening (projr (run default_args talk_model always_yes talk_then_talk))
   \<and> conversation_counter (projr (run default_args talk_model always_yes talk_then_talk)) = 1
   \<and> \<not> is_silence loud \<and> \<not> is_silence speech
   \<and> silence_seconds default_args div BUFFER_DURATION = 0"
  by code_simp

section \<open>The saved conversation\<close>

text \<open>
  C3. At the wake word the conversation starts as a copy of the context buffer, and
  at the end the context buffer is written out in front of the conversation: the
  chunk with the wake word is saved twice, in the audio and in the transcript.
\<close>

theorem conversation_repeats_context:
  "\<not> isl (run five_args talk_model always_yes (take 2 talk_then_quiet))
   \<and> context_buffer (projr (run five_args talk_model always_yes (take 2 talk_then_quiet))) = [wake_chunk]
   \<and> active_conversation_chunks (projr (run five_args talk_model always_yes (take 2 talk_then_quiet)))
       = [wake_chunk]
   \<and> \<not> isl (run five_args talk_model always_yes talk_then_quiet)
   \<and> recordings (projr (run five_args talk_model always_yes talk_then_quiet))
       = [AudioFile ''conversation_3.wav'' (loud @ loud @ speech),
          TextFile ''conversation_3.txt'' ''hey goose hey goose turn on the lights'']"
  by code_simp

section \<open>Periodic transcriptions\<close>

text \<open>
  C4. The first loop does not skip periodic tasks. A periodic result that is ready
  when a turn starts is appended to the context buffer as a chunk without audio and
  its text file is never written; if its text has the wake word it switches to active
  listening; and the next periodic concatenation raises on the missing audio, which
  ends the main loop. Only a result that arrives between the two loops of a turn is
  written out by the second loop and leaves the context buffer alone.
\<close>

theorem periodic_result_joins_context_buffer:
  "\<not> isl (run default_args ambient_model always_yes periodic_turns)
   \<and> context_buffer (projr (run default_args ambient_model always_yes periodic_turns))
       = [(Some loud, ''audio_chunk_1.wav'', Some ''hello''),
          (None, ''periodic_2.wav'', Some ''hello again'')]
   \<and> recordings (projr (run default_args ambient_model always_yes periodic_turns))
       = [AudioFile ''periodic_2.wav'' loud]
   \<and> \<not> isl (run default_args goose_ambient_model always_yes periodic_turns)
   \<and> is_active_listening (projr (run default_args goose_ambient_model always_yes periodic_turns))
   \<and> active_conversation_chunks (projr (run default_args goose_ambient_model always_yes periodic_turns))
       = [(Some loud, ''audio_chunk_1.wav'', Some ''hello''),
          (None, ''periodic_2.wav'', Some ''hello goose'')]
   \<and> run default_args ambient_model always_yes (periodic_turns @ [late_turn]) = Inl ValueError
   \<and> \<not> isl (run default_args ambient_model always_yes periodic_turns_late)
   \<and> context_buffer (projr (run default_args ambient_model always_yes periodic_turns_late))
       = [(Some loud, ''audio_chunk_1.wav'', Some ''hello'')]
   \<and> recordings (projr (run default_args ambient_model always_yes periodic_turns_late))
       = [AudioFile ''periodic_2.wav'' loud, TextFile ''periodic_2.txt'' ''hello again'']"
  by code_simp

end
